theory Spec2Isabelle
  imports Complex_Main "HOL-Library.Word"
begin

unbundle bit_operations_syntax

section \<open>The NMEA parser of the GPS module (\<^verbatim>\<open>src/gps/parser_nmea.cpp\<close>)\<close>

text \<open>
  A shallow embedding of \<^verbatim>\<open>ParserNmea\<close>. The object is a record that every member
  function takes and returns. What the object does to the outside (the four consumer
  callbacks) is a log of events inside that record. C \<^verbatim>\<open>double\<close> values are
  idealised as \<^typ>\<open>real\<close> (no rounding), the \<^verbatim>\<open>nyx_debug\<close> and \<^verbatim>\<open>nyx_error\<close> log lines have
  no effect in the model, and \<^verbatim>\<open>malloc\<close> never fails. Dereferencing a null pointer and
  indexing an array outside its bounds are results of their own, of type \<open>fault\<close>.
\<close>

subsection \<open>Types of the collaborators\<close>

datatype fault = NullPointer | OutOfBounds

text \<open>\<^verbatim>\<open>CNMEAParserData::ERROR_E\<close>: the source names only \<^verbatim>\<open>ERROR_OK\<close>.\<close>

datatype ERROR_E = ERROR_OK | ERROR_OTHER int

text \<open>The decoded sentences; only the fields the parser stores or forwards are kept.\<close>

record GGA_DATA_T =
  m_dLatitude :: real
  m_dLongitude :: real
  m_dAltitudeMSL :: real
  m_dHDOP :: real

record RMC_DATA_T =
  m_dLatitude :: real
  m_dLongitude :: real
  m_dAltitudeMSL :: real
  m_dSpeedKnots :: real
  m_dTrackAngle :: real

record GSA_DATA_T =
  nAutoMode :: int
  nMode :: int
  dPDOP :: real
  dHDOP :: real
  dVDOP :: real

record SAT_INFO_T =
  nPRN :: int
  nSNR :: int
  dElevation :: real
  dAzimuth :: real

text \<open>\<open>SatInfo\<close> is a C array; its declared size is the length of the list.\<close>

record GSV_DATA_T =
  nSatsInView :: int
  SatInfo :: "SAT_INFO_T list"

text \<open>The structures handed to the consumer callbacks.\<close>

record GpsLocation =
  latitude :: real
  longitude :: real
  altitude :: real
  speed :: real
  accuracy :: real
  timestamp :: int

record GpsSvInfo =
  prn :: int
  snr :: real
  elevation :: real
  azimuth :: real

record GpsSvStatus =
  num_svs :: int
  sv_list :: "GpsSvInfo list"

datatype gps_status = NYX_GPS_STATUS_SESSION_BEGIN | NYX_GPS_STATUS_SESSION_END

text \<open>One constructor for each callback; the log keeps the order of the calls.\<close>

datatype event =
    parser_loc_cb GpsLocation
  | parser_sv_cb GpsSvStatus
  | parser_nmea_cb int string int
  | parser_status_cb gps_status

subsection \<open>The parser object\<close>

record GpsData =
  latitude :: real
  longitude :: real
  altitude :: real
  speed :: real
  direction :: real
  horizAccuracy :: real

text \<open>An open \<^verbatim>\<open>FILE*\<close>: the bytes of the file, the read position, the end-of-file flag.\<close>

record FILE =
  content :: "char list"
  pos :: nat
  eof :: bool

text \<open>
  The closures that \<^verbatim>\<open>ProcessRxCommand\<close> hands to the thread pool: each captures a
  copy of the decoded sentence and the raw text.
\<close>

datatype task =
    GGA_task GGA_DATA_T "string option"
  | GSV_task GSV_DATA_T "string option"
  | GSA_task GSA_DATA_T "string option"
  | RMC_task RMC_DATA_T "string option"

text \<open>
  Modelled from the spec: \<^verbatim>\<open>ParserThreadPool\<close> (\<^verbatim>\<open>parser_thread_pool.h\<close> is not among
  the sources). A pool is built from a number of workers and an interval; \<open>enqueue\<close>
  returns at once and appends the task; one worker runs the tasks in the order in which
  they were enqueued. Deleting the pool drops the object with what is still queued.
  The worker is a thread of its own: the member functions below, which run on the
  calling thread, only queue tasks, and \<open>run_task\<close> is what the worker does with one
  task. How the two threads interleave is not modelled.
\<close>

record ParserThreadPool =
  threads :: nat
  interval :: int
  tasks :: "task list"

text \<open>
  The members of \<^verbatim>\<open>ParserNmea\<close>, followed by what the model observes. \<open>parser\<close> is the
  state of the base class \<^verbatim>\<open>CNMEAParser\<close>. \<open>mSeekOffset\<close> is a natural number: the
  header that declares its C type is not among the sources. \<open>events\<close> logs the consumer
  callbacks, \<open>fed\<close> the bytes handed to the decoder, \<open>ticks\<close> counts the calls of
  \<^verbatim>\<open>getCurrentTime\<close>, and \<open>watch\<close> tells whether \<^verbatim>\<open>parser_inotify_handler\<close> is registered.
\<close>

record 'p ParserNmea =
  mNmeaFp :: "FILE option"
  mSeekOffset :: nat
  mStopParser :: bool
  mGpsData :: GpsData
  mParserThreadPoolObj :: "ParserThreadPool option"
  parser :: 'p
  events :: "event list"
  fed :: "char list"
  ticks :: nat
  watch :: bool

text \<open>
  What the parser reads from outside. \<open>nmea_file\<close> is the content of
  \<^verbatim>\<open>/media/internal/location/gps.nmea\<close>, or \<open>None\<close> when it cannot be opened. \<open>config\<close> is
  the result of \<^verbatim>\<open>gps_config_load_file\<close>: the integer keys of the group
  \<^verbatim>\<open>GPS_MOCK_INFO\<close>, or \<open>None\<close> when there is no key file. \<open>DEFAULT_LATENCY\<close> and
  \<open>GPS_MAX_SVS\<close> (the declared size of \<^verbatim>\<open>sv_list\<close>) are constants of headers that are
  not among the sources. \<open>clock n\<close> is the wall-clock time in milliseconds at the
  \<open>n\<close>-th call of \<^verbatim>\<open>getCurrentTime\<close>. The remaining fields are the NMEA library:
  \<open>lib_ProcessNMEABuffer\<close> gives the return code of the framing of one buffer, the
  sentences (command, data, checksum) for which it calls \<^verbatim>\<open>ProcessRxCommand\<close>, in
  order, and the framing state afterwards; \<open>lib_ProcessRxCommand\<close> is the base class's
  \<^verbatim>\<open>ProcessRxCommand\<close>.
\<close>

record 'p env =
  nmea_file :: "char list option"
  config :: "(string \<rightharpoonup> int) option"
  DEFAULT_LATENCY :: int
  GPS_MAX_SVS :: nat
  clock :: "nat \<Rightarrow> int"
  lib_ProcessNMEABuffer :: "'p \<Rightarrow> char list \<Rightarrow> ERROR_E \<times> (string \<times> string \<times> string) list \<times> 'p"
  lib_ProcessRxCommand :: "string \<Rightarrow> string \<Rightarrow> 'p \<Rightarrow> 'p"
  GetGPGGA :: "'p \<Rightarrow> ERROR_E \<times> GGA_DATA_T"
  GetGPGSV :: "'p \<Rightarrow> ERROR_E \<times> GSV_DATA_T"
  GetGPGSA :: "'p \<Rightarrow> ERROR_E \<times> GSA_DATA_T"
  GetGPRMC :: "'p \<Rightarrow> ERROR_E \<times> RMC_DATA_T"
  ResetData :: "'p \<Rightarrow> 'p"


subsection \<open>Callbacks\<close>

definition getCurrentTime :: "'p env \<Rightarrow> 'p ParserNmea \<Rightarrow> int \<times> 'p ParserNmea" where
  "getCurrentTime E s = (clock E (ticks s), s\<lparr>ticks := Suc (ticks s)\<rparr>)"

definition sendLocationUpdates :: "'p env \<Rightarrow> 'p ParserNmea \<Rightarrow> 'p ParserNmea" where
  "sendLocationUpdates E s =
     (let now = fst (getCurrentTime E s);
          s1 = snd (getCurrentTime E s);
          location = \<lparr> GpsLocation.latitude = GpsData.latitude (mGpsData s),
                       GpsLocation.longitude = GpsData.longitude (mGpsData s),
                       GpsLocation.altitude = GpsData.altitude (mGpsData s),
                       GpsLocation.speed = GpsData.speed (mGpsData s),
                       accuracy = horizAccuracy (mGpsData s),
                       timestamp = now \<rparr>
      in s1\<lparr>events := events s1 @ [parser_loc_cb location]\<rparr>)"

definition sendNmeaUpdates :: "'p env \<Rightarrow> string option \<Rightarrow> 'p ParserNmea \<Rightarrow> 'p ParserNmea" where
  "sendNmeaUpdates E rawNmea s =
     (case rawNmea of
        None \<Rightarrow> s
      | Some txt \<Rightarrow>
          (let now = fst (getCurrentTime E s);
               s1 = snd (getCurrentTime E s)
           in s1\<lparr>events := events s1 @ [parser_nmea_cb now txt (int (length txt))]\<rparr>))"

definition SetGpsStatus :: "gps_status \<Rightarrow> 'p ParserNmea \<Rightarrow> 'p ParserNmea" where
  "SetGpsStatus status s = s\<lparr>events := events s @ [parser_status_cb status]\<rparr>"

subsection \<open>Applying a decoded sentence\<close>

text \<open>
  The four functions return \<^verbatim>\<open>ERROR_OK\<close> converted to \<^verbatim>\<open>bool\<close>, which no caller
  reads; the model returns the object only.
\<close>

definition SetGpsGGA_Data :: "'p env \<Rightarrow> GGA_DATA_T \<Rightarrow> string option \<Rightarrow> 'p ParserNmea \<Rightarrow> 'p ParserNmea" where
  "SetGpsGGA_Data E ggaData nmea_data s =
     (let s1 = s\<lparr>mGpsData := (mGpsData s)
                 \<lparr> GpsData.latitude := GGA_DATA_T.m_dLatitude ggaData,
                   GpsData.longitude := GGA_DATA_T.m_dLongitude ggaData,
                   GpsData.altitude := GGA_DATA_T.m_dAltitudeMSL ggaData,
                   horizAccuracy := m_dHDOP ggaData \<rparr>\<rparr>
      in sendNmeaUpdates E nmea_data (sendLocationUpdates E s1))"

definition SetGpsRMC_Data :: "'p env \<Rightarrow> RMC_DATA_T \<Rightarrow> string option \<Rightarrow> 'p ParserNmea \<Rightarrow> 'p ParserNmea" where
  "SetGpsRMC_Data E rmcData nmea_data s =
     (let s1 = s\<lparr>mGpsData := (mGpsData s)
                 \<lparr> GpsData.latitude := RMC_DATA_T.m_dLatitude rmcData,
                   GpsData.longitude := RMC_DATA_T.m_dLongitude rmcData,
                   GpsData.altitude := RMC_DATA_T.m_dAltitudeMSL rmcData,
                   GpsData.speed := m_dSpeedKnots rmcData * 0.514,
                   direction := m_dTrackAngle rmcData \<rparr>\<rparr>
      in sendNmeaUpdates E nmea_data (sendLocationUpdates E s1))"

definition SetGpsGSA_Data :: "'p env \<Rightarrow> GSA_DATA_T \<Rightarrow> string option \<Rightarrow> 'p ParserNmea \<Rightarrow> 'p ParserNmea" where
  "SetGpsGSA_Data E gsaData nmea_data s = sendNmeaUpdates E nmea_data s"

text \<open>
  The loop of \<^verbatim>\<open>SetGpsGSV_Data\<close>, from index \<open>i\<close>: it runs while \<open>i < num_svs\<close>, reads
  \<^verbatim>\<open>SatInfo[i]\<close> and writes \<^verbatim>\<open>sv_list[i]\<close>. An index outside either array is a fault.
\<close>

function copy_svs :: "nat \<Rightarrow> GSV_DATA_T \<Rightarrow> GpsSvStatus \<Rightarrow> fault + GpsSvStatus" where
  "copy_svs i gsvData sv_status =
     (if int i < num_svs sv_status then
        (if i < length (SatInfo gsvData) \<and> i < length (sv_list sv_status) then
           copy_svs (Suc i) gsvData
             (sv_status\<lparr>sv_list := (sv_list sv_status)
                [i := \<lparr> prn = nPRN (SatInfo gsvData ! i),
                        snr = real_of_int (nSNR (SatInfo gsvData ! i)),
                        elevation = dElevation (SatInfo gsvData ! i),
                        azimuth = dAzimuth (SatInfo gsvData ! i) \<rparr>]\<rparr>)
         else Inl OutOfBounds)
      else Inr sv_status)"
  by pat_completeness auto
termination
  by (relation "measure (\<lambda>(i, gsvData, sv_status). nat (num_svs sv_status - int i))") auto

declare copy_svs.simps [simp del]

definition zero_sv :: GpsSvInfo where
  "zero_sv = \<lparr> prn = 0, snr = 0, elevation = 0, azimuth = 0 \<rparr>"

definition SetGpsGSV_Data :: "'p env \<Rightarrow> GSV_DATA_T \<Rightarrow> string option \<Rightarrow> 'p ParserNmea \<Rightarrow> fault + 'p ParserNmea" where
  "SetGpsGSV_Data E gsvData nmea_data s =
     (case copy_svs 0 gsvData
             \<lparr> num_svs = nSatsInView gsvData, sv_list = replicate (GPS_MAX_SVS E) zero_sv \<rparr> of
        Inl f \<Rightarrow> Inl f
      | Inr sv_status \<Rightarrow>
          Inr (sendNmeaUpdates E nmea_data (s\<lparr>events := events s @ [parser_sv_cb sv_status]\<rparr>)))"

text \<open>What the worker of the pool does with one task.\<close>

fun run_task :: "'p env \<Rightarrow> task \<Rightarrow> 'p ParserNmea \<Rightarrow> fault + 'p ParserNmea" where
  "run_task E (GGA_task ggaData nmea_data) s = Inr (SetGpsGGA_Data E ggaData nmea_data s)"
| "run_task E (GSV_task gsvData nmea_data) s = SetGpsGSV_Data E gsvData nmea_data s"
| "run_task E (GSA_task gsaData nmea_data) s = Inr (SetGpsGSA_Data E gsaData nmea_data s)"
| "run_task E (RMC_task rmcData nmea_data) s = Inr (SetGpsRMC_Data E rmcData nmea_data s)"

subsection \<open>Dispatching a framed sentence\<close>

text \<open>\<^verbatim>\<open>strstr(hay, needle) != NULL\<close>: \<open>needle\<close> occurs in \<open>hay\<close>.\<close>

fun starts_with :: "string \<Rightarrow> string \<Rightarrow> bool" where
  "starts_with hay [] = True"
| "starts_with [] (c # needle) = False"
| "starts_with (h # hay) (c # needle) = (h = c \<and> starts_with hay needle)"

fun strstr :: "string \<Rightarrow> string \<Rightarrow> bool" where
  "strstr [] needle = starts_with [] needle"
| "strstr (h # hay) needle = (starts_with (h # hay) needle \<or> strstr hay needle)"

text \<open>
  \<^verbatim>\<open>snprintf(nmea_data, len, "$%.5s,%s*%.2s", pCmd, pData, checksum)\<close> with
  \<^verbatim>\<open>len = strlen(pCmd) + strlen(pData) + 7\<close>: at most \<open>len - 1\<close> characters are written.
\<close>

definition format_nmea :: "string \<Rightarrow> string \<Rightarrow> string \<Rightarrow> string" where
  "format_nmea pCmd pData checksum =
     take (length pCmd + length pData + 7 - 1)
       (''$'' @ take 5 pCmd @ '','' @ pData @ ''*'' @ take 2 checksum)"

text \<open>
  Modelled from the spec: \<^verbatim>\<open>ParserThreadPool::enqueue\<close>, called through
  \<^verbatim>\<open>mParserThreadPoolObj\<close>; through a null pointer the call is a fault.
\<close>

definition enqueue :: "task \<Rightarrow> 'p ParserNmea \<Rightarrow> fault + 'p ParserNmea" where
  "enqueue t s =
     (case mParserThreadPoolObj s of
        None \<Rightarrow> Inl NullPointer
      | Some pool \<Rightarrow> Inr (s\<lparr>mParserThreadPoolObj := Some (pool\<lparr>tasks := tasks pool @ [t]\<rparr>)\<rparr>))"

text \<open>
  The task that \<^verbatim>\<open>ProcessRxCommand\<close> builds for a sentence, if any: the chain of
  \<^verbatim>\<open>strstr\<close> tests in the order of the source, each followed by the getter of the
  base class. A sentence of a known kind whose getter fails, and a sentence of no known
  kind, give no task.
\<close>

definition rx_task :: "'p env \<Rightarrow> string \<Rightarrow> string option \<Rightarrow> 'p \<Rightarrow> task option" where
  "rx_task E pCmd nmea_data p =
     (if strstr pCmd ''GPGGA'' then
        (if fst (GetGPGGA E p) = ERROR_OK then Some (GGA_task (snd (GetGPGGA E p)) nmea_data) else None)
      else if strstr pCmd ''GPGSV'' then
        (if fst (GetGPGSV E p) = ERROR_OK then Some (GSV_task (snd (GetGPGSV E p)) nmea_data) else None)
      else if strstr pCmd ''GPGSA'' then
        (if fst (GetGPGSA E p) = ERROR_OK then Some (GSA_task (snd (GetGPGSA E p)) nmea_data) else None)
      else if strstr pCmd ''GPRMC'' then
        (if fst (GetGPRMC E p) = ERROR_OK then Some (RMC_task (snd (GetGPRMC E p)) nmea_data) else None)
      else None)"

definition ProcessRxCommand ::
  "'p env \<Rightarrow> string \<Rightarrow> string \<Rightarrow> string \<Rightarrow> 'p ParserNmea \<Rightarrow> fault + (ERROR_E \<times> 'p ParserNmea)" where
  "ProcessRxCommand E pCmd pData checksum s =
     (let s1 = s\<lparr>parser := lib_ProcessRxCommand E pCmd pData (parser s)\<rparr>;
          nmea_data = Some (format_nmea pCmd pData checksum)
      in case rx_task E pCmd nmea_data (parser s1) of
           None \<Rightarrow> Inr (ERROR_OK, s1)
         | Some t \<Rightarrow> (case enqueue t s1 of Inl f \<Rightarrow> Inl f | Inr s2 \<Rightarrow> Inr (ERROR_OK, s2)))"

text \<open>
  \<^verbatim>\<open>ProcessNMEABuffer\<close> is the library's; it calls the virtual \<^verbatim>\<open>ProcessRxCommand\<close>
  above for every sentence it frames and ignores what that returns.
\<close>

fun rx_all :: "'p env \<Rightarrow> (string \<times> string \<times> string) list \<Rightarrow> 'p ParserNmea \<Rightarrow> fault + 'p ParserNmea" where
  "rx_all E [] s = Inr s"
| "rx_all E ((pCmd, pData, checksum) # rest) s =
     (case ProcessRxCommand E pCmd pData checksum s of
        Inl f \<Rightarrow> Inl f
      | Inr r \<Rightarrow> rx_all E rest (snd r))"

definition ProcessNMEABuffer ::
  "'p env \<Rightarrow> char list \<Rightarrow> 'p ParserNmea \<Rightarrow> fault + (ERROR_E \<times> 'p ParserNmea)" where
  "ProcessNMEABuffer E pBuff s =
     (let r = lib_ProcessNMEABuffer E (parser s) pBuff;
          s1 = s\<lparr>parser := snd (snd r), fed := fed s @ pBuff\<rparr>
      in case rx_all E (fst (snd r)) s1 of
           Inl f \<Rightarrow> Inl f
         | Inr s2 \<Rightarrow> Inr (fst r, s2))"

subsection \<open>The tracked file\<close>

definition fopen :: "'p env \<Rightarrow> FILE option" where
  "fopen E = map_option (\<lambda>c. \<lparr> content = c, pos = 0, eof = False \<rparr>) (nmea_file E)"

definition fseek :: "FILE \<Rightarrow> nat \<Rightarrow> FILE" where
  "fseek fp off = fp\<lparr>pos := off, eof := False\<rparr>"

text \<open>
  \<^verbatim>\<open>fread(buf, 1, n, fp)\<close>: the next \<open>n\<close> bytes, or those that are left; a short read
  sets the end-of-file flag. Read errors are not modelled.
\<close>

definition fread :: "nat \<Rightarrow> FILE \<Rightarrow> char list \<times> FILE" where
  "fread n fp =
     (let chunk = take n (drop (pos fp) (content fp))
      in (chunk, fp\<lparr>pos := pos fp + length chunk, eof := (eof fp \<or> length chunk < n)\<rparr>))"

subsection \<open>Session control\<close>

definition init :: "'p ParserNmea \<Rightarrow> 'p ParserNmea" where
  "init s = s\<lparr>mGpsData := (mGpsData s)
               \<lparr> GpsData.altitude := - 1,
                 GpsData.speed := - 1,
                 direction := - 1,
                 horizAccuracy := - 1 \<rparr>\<rparr>"

definition zero_GpsData :: GpsData where
  "zero_GpsData = \<lparr> GpsData.latitude = 0, GpsData.longitude = 0, GpsData.altitude = 0,
                    GpsData.speed = 0, direction = 0, horizAccuracy = 0 \<rparr>"

definition deinit :: "'p env \<Rightarrow> 'p ParserNmea \<Rightarrow> 'p ParserNmea" where
  "deinit E s = s\<lparr>parser := ResetData E (parser s), mGpsData := zero_GpsData\<rparr>"

text \<open>The constructor, for a base-class state \<open>p\<close>.\<close>

definition ParserNmea_new :: "'p \<Rightarrow> 'p ParserNmea" where
  "ParserNmea_new p =
     \<lparr> mNmeaFp = None, mSeekOffset = 0, mStopParser = False, mGpsData = zero_GpsData,
       mParserThreadPoolObj = None, parser = p, events = [], fed = [], ticks = 0,
       watch = False \<rparr>"

text \<open>
  The \<^verbatim>\<open>while\<close> loop of \<^verbatim>\<open>startParsing\<close>. The result \<open>Some b\<close> is a \<^verbatim>\<open>return b\<close> from
  inside the loop; \<open>None\<close> means the loop condition has become false.
\<close>

function read_loop :: "'p env \<Rightarrow> 'p ParserNmea \<Rightarrow> fault + (bool option \<times> 'p ParserNmea)" where
  "read_loop E s =
     (case mNmeaFp s of
        None \<Rightarrow> Inr (None, s)
      | Some fp \<Rightarrow>
          if eof fp then Inr (None, s)
          else if mStopParser s then Inr (Some True, s\<lparr>mStopParser := False, mNmeaFp := None\<rparr>)
          else
            (case ProcessNMEABuffer E (fst (fread 512 fp)) (s\<lparr>mNmeaFp := Some (snd (fread 512 fp))\<rparr>) of
               Inl f \<Rightarrow> Inl f
             | Inr r \<Rightarrow>
                 if fst r \<noteq> ERROR_OK then Inr (Some False, snd r)
                 else read_loop E
                        ((snd r)\<lparr>mSeekOffset := mSeekOffset (snd r) + length (fst (fread 512 fp))\<rparr>)))"
  by pat_completeness auto
termination
proof (relation "measure (\<lambda>(E, s). case mNmeaFp s of None \<Rightarrow> 0
                    | Some fp \<Rightarrow> length (content fp) - pos fp + (if eof fp then 0 else 1))")
  show "wf (measure (\<lambda>(E :: 'p env, s :: 'p ParserNmea). case mNmeaFp s of None \<Rightarrow> 0
                    | Some fp \<Rightarrow> length (content fp) - pos fp + (if eof fp then 0 else 1)))"
    by simp
next
  fix E :: "'p env" and s :: "'p ParserNmea" and fp r
  assume a: "mNmeaFp s = Some fp" "\<not> eof fp" "\<not> mStopParser s"
    "ProcessNMEABuffer E (fst (fread 512 fp)) (s\<lparr>mNmeaFp := Some (snd (fread 512 fp))\<rparr>) = Inr r"
    "\<not> fst r \<noteq> ERROR_OK"
  have rx: "\<And>c d k t t'. ProcessRxCommand E c d k t = Inr t' \<Longrightarrow> mNmeaFp (snd t') = mNmeaFp t"
    by (auto simp: ProcessRxCommand_def enqueue_def Let_def split: option.splits)
  have all: "\<And>t t'. rx_all E cmds t = Inr t' \<Longrightarrow> mNmeaFp t' = mNmeaFp t" for cmds
  proof (induction cmds)
    case Nil
    then show ?case by simp
  next
    case (Cons c cmds)
    then show ?case using rx
      by (cases c) (auto split: sum.splits)
  qed
  have "mNmeaFp (snd r) = Some (snd (fread 512 fp))"
    using a(4) all by (fastforce simp: ProcessNMEABuffer_def Let_def split: sum.splits)
  moreover have "length (content fp) - pos (snd (fread 512 fp)) + (if eof (snd (fread 512 fp)) then 0 else 1)
        < length (content fp) - pos fp + 1"
    by (auto simp: fread_def Let_def)
  moreover have "content (snd (fread 512 fp)) = content fp"
    by (simp add: fread_def Let_def)
  ultimately show "((E, (snd r)\<lparr>mSeekOffset := mSeekOffset (snd r) + length (fst (fread 512 fp))\<rparr>), E, s)
       \<in> measure (\<lambda>(E, s). case mNmeaFp s of None \<Rightarrow> 0
                    | Some fp \<Rightarrow> length (content fp) - pos fp + (if eof fp then 0 else 1))"
    using a(1,2) by simp
qed

declare read_loop.simps [simp del]

text \<open>
  Modelled from the spec: the change-notification bridge (\<^verbatim>\<open>parser_inotify.h\<close> is not among
  the sources). It holds at most one registration of the handler for the directory of
  the tracked file; \<open>watch\<close> is that registration.
\<close>

definition parser_inotify_register :: "'p ParserNmea \<Rightarrow> 'p ParserNmea" where
  "parser_inotify_register s = s\<lparr>watch := True\<rparr>"

definition parser_inotify_unregister :: "'p ParserNmea \<Rightarrow> 'p ParserNmea" where
  "parser_inotify_unregister s = s\<lparr>watch := False\<rparr>"

text \<open>\<^verbatim>\<open>g_key_file_get_integer\<close> gives 0 for a key that is not there.\<close>

definition g_key_file_get_integer :: "(string \<rightharpoonup> int) \<Rightarrow> string \<Rightarrow> int" where
  "g_key_file_get_integer keyfile key = (case keyfile key of None \<Rightarrow> 0 | Some v \<Rightarrow> v)"

text \<open>Division of C integers truncates towards zero.\<close>

definition c_div :: "int \<Rightarrow> int \<Rightarrow> int" where
  "c_div a b = sgn a * sgn b * (\<bar>a\<bar> div \<bar>b\<bar>)"

text \<open>
  \<^verbatim>\<open>startParsing\<close>, after the file has been opened and the key file loaded: the
  latency, the pool, the seek, the loop and what follows the loop.
\<close>

definition read_pass ::
  "'p env \<Rightarrow> (string \<rightharpoonup> int) \<Rightarrow> 'p ParserNmea \<Rightarrow> fault + (bool \<times> 'p ParserNmea)" where
  "read_pass E keyfile s =
     (let latency0 = g_key_file_get_integer keyfile ''LATENCY'';
          latency = (if latency0 = 0 then DEFAULT_LATENCY E else latency0);
          interval = c_div latency 2;
          s1 = (case mParserThreadPoolObj s of
                  None \<Rightarrow> s\<lparr>mParserThreadPoolObj :=
                              Some \<lparr> threads = 1, interval = interval, tasks = [] \<rparr>\<rparr>
                | Some pool \<Rightarrow> s);
          s2 = (if mSeekOffset s1 \<noteq> 0
                then s1\<lparr>mNmeaFp := map_option (\<lambda>fp. fseek fp (mSeekOffset s1)) (mNmeaFp s1)\<rparr>
                else s1)
      in case read_loop E s2 of
           Inl f \<Rightarrow> Inl f
         | Inr (Some b, s3) \<Rightarrow> Inr (b, s3)
         | Inr (None, s3) \<Rightarrow>
             (let s4 = (case mNmeaFp s3 of None \<Rightarrow> s3 | Some fp \<Rightarrow> s3\<lparr>mNmeaFp := None\<rparr>)
              in Inr (False, parser_inotify_register s4)))"

definition startParsing :: "'p env \<Rightarrow> 'p ParserNmea \<Rightarrow> fault + (bool \<times> 'p ParserNmea)" where
  "startParsing E s =
     (case fopen E of
        None \<Rightarrow> Inr (False, s\<lparr>mNmeaFp := None\<rparr>)
      | Some fp \<Rightarrow>
          (let s1 = SetGpsStatus NYX_GPS_STATUS_SESSION_BEGIN (init (s\<lparr>mNmeaFp := Some fp\<rparr>))
           in case config E of
                None \<Rightarrow> Inr (False, s1)
              | Some keyfile \<Rightarrow> read_pass E keyfile s1))"

definition stopParsing :: "'p env \<Rightarrow> 'p ParserNmea \<Rightarrow> bool \<times> 'p ParserNmea" where
  "stopParsing E s =
     (let s1 = parser_inotify_unregister (s\<lparr>mSeekOffset := 0\<rparr>);
          s2 = s1\<lparr>mParserThreadPoolObj := None\<rparr>;
          s3 = (case mNmeaFp s2 of
                  None \<Rightarrow> s2
                | Some fp \<Rightarrow> s2\<lparr>mStopParser := True, mNmeaFp := None\<rparr>);
          s4 = SetGpsStatus NYX_GPS_STATUS_SESSION_END s3
      in (True, deinit E s4))"




subsection \<open>Observations and sample inputs\<close>

text \<open>The location events of a log, in order.\<close>

fun locations :: "event list \<Rightarrow> GpsLocation list" where
  "locations [] = []"
| "locations (parser_loc_cb l # es) = l # locations es"
| "locations (e # es) = locations es"

text \<open>
  \<open>untouched s s'\<close>: \<open>s'\<close> differs from \<open>s\<close> at most in the state of the base class and
  in the tasks queued in the pool.
\<close>

definition untouched :: "'p ParserNmea \<Rightarrow> 'p ParserNmea \<Rightarrow> bool" where
  "untouched s s' \<longleftrightarrow>
     mNmeaFp s' = mNmeaFp s \<and> mSeekOffset s' = mSeekOffset s \<and> mStopParser s' = mStopParser s
     \<and> mGpsData s' = mGpsData s \<and> events s' = events s \<and> fed s' = fed s
     \<and> ticks s' = ticks s \<and> watch s' = watch s
     \<and> map_option interval (mParserThreadPoolObj s') = map_option interval (mParserThreadPoolObj s)"

text \<open>
  A sample environment for the examples: a three-byte file, a key file whose latency
  is 0, a library that frames no sentence and whose getters return fixed records. The
  values of the two constants are samples.
\<close>

definition sample_env :: "unit env" where
  "sample_env =
     \<lparr> nmea_file = Some ''$GP'',
       config = Some (Map.empty(''LATENCY'' \<mapsto> 0)),
       DEFAULT_LATENCY = 1000,
       GPS_MAX_SVS = 32,
       clock = (\<lambda>n. int n),
       lib_ProcessNMEABuffer = (\<lambda>p buf. (ERROR_OK, [], p)),
       lib_ProcessRxCommand = (\<lambda>pCmd pData p. p),
       GetGPGGA = (\<lambda>p. (ERROR_OK,
         \<lparr> GGA_DATA_T.m_dLatitude = 48.1173, GGA_DATA_T.m_dLongitude = 11.5167,
           GGA_DATA_T.m_dAltitudeMSL = 545.4, m_dHDOP = 0.9 \<rparr>)),
       GetGPGSV = (\<lambda>p. (ERROR_OK, \<lparr> nSatsInView = 0, SatInfo = [] \<rparr>)),
       GetGPGSA = (\<lambda>p. (ERROR_OK,
         \<lparr> nAutoMode = 0, nMode = 0, dPDOP = 0, dHDOP = 0, dVDOP = 0 \<rparr>)),
       GetGPRMC = (\<lambda>p. (ERROR_OK,
         \<lparr> RMC_DATA_T.m_dLatitude = 48.1173, RMC_DATA_T.m_dLongitude = 11.5167,
           RMC_DATA_T.m_dAltitudeMSL = 0, m_dSpeedKnots = 22.4, m_dTrackAngle = 84.4 \<rparr>)),
       ResetData = (\<lambda>p. p) \<rparr>"

text \<open>A parser whose pool exists and is empty.\<close>

definition sample_parser :: "unit ParserNmea" where
  "sample_parser =
     (ParserNmea_new ())\<lparr>mParserThreadPoolObj := Some \<lparr> threads = 1, interval = 500, tasks = [] \<rparr>\<rparr>"

text \<open>
  The parser after a first \<^verbatim>\<open>startParsing\<close> in the sample environment: the three bytes
  are read, the file is closed and the handler is registered.
\<close>

definition sample_waiting :: "unit ParserNmea" where
  "sample_waiting =
     \<lparr> mNmeaFp = None, mSeekOffset = 3, mStopParser = False,
       mGpsData = \<lparr> GpsData.latitude = 0, GpsData.longitude = 0, GpsData.altitude = - 1,
                    GpsData.speed = - 1, direction = - 1, horizAccuracy = - 1 \<rparr>,
       mParserThreadPoolObj = Some \<lparr> threads = 1, interval = 500, tasks = [] \<rparr>,
       parser = (), events = [parser_status_cb NYX_GPS_STATUS_SESSION_BEGIN], fed = ''$GP'',
       ticks = 0, watch = True \<rparr>"




section \<open>Properties\<close>

subsection \<open>Auxiliary facts\<close>

lemma parser_inotify_simps [simp]:
  "parser_inotify_register s = s\<lparr>watch := True\<rparr>"
  "parser_inotify_unregister s = s\<lparr>watch := False\<rparr>"
  by (simp_all add: parser_inotify_register_def parser_inotify_unregister_def)

lemma getCurrentTime_simps:
  "fst (getCurrentTime E s) = clock E (ticks s)"
  "snd (getCurrentTime E s) = s\<lparr>ticks := Suc (ticks s)\<rparr>"
  by (simp_all add: getCurrentTime_def)

lemma untouched_refl: "untouched s s"
  by (simp add: untouched_def)

lemma untouched_trans: "untouched s t \<Longrightarrow> untouched t u \<Longrightarrow> untouched s u"
  by (simp add: untouched_def)

lemma untouched_pool:
  "untouched s s' \<Longrightarrow> (mParserThreadPoolObj s' = None) = (mParserThreadPoolObj s = None)"
  by (cases "mParserThreadPoolObj s"; cases "mParserThreadPoolObj s'") (simp_all add: untouched_def)

text \<open>
  A count of satellites above the size of \<^verbatim>\<open>sv_list\<close> drives the copy loop out of the
  array, whatever that size is.
\<close>

lemma copy_svs_overrun:
  "i \<le> length (sv_list sv) \<Longrightarrow> int (length (sv_list sv)) < num_svs sv
   \<Longrightarrow> copy_svs i gsv sv = Inl OutOfBounds"
proof (induction "length (sv_list sv) - i" arbitrary: i sv)
  case 0
  then show ?case by (subst copy_svs.simps) simp
next
  case (Suc n)
  show ?case
  proof (cases "i < length (SatInfo gsv)")
    case True
    have "copy_svs (Suc i) gsv
            (sv\<lparr>sv_list := (sv_list sv)
                [i := \<lparr> prn = nPRN (SatInfo gsv ! i),
                        snr = real_of_int (nSNR (SatInfo gsv ! i)),
                        elevation = dElevation (SatInfo gsv ! i),
                        azimuth = dAzimuth (SatInfo gsv ! i) \<rparr>]\<rparr>) = Inl OutOfBounds"
      using Suc.hyps(2) Suc.prems by (intro Suc.hyps(1)) simp_all
    then show ?thesis
      using Suc.prems by (subst copy_svs.simps) simp
  next
    case False
    then show ?thesis
      using Suc.prems by (subst copy_svs.simps) simp
  qed
qed

lemma SetGpsGSV_Data_overrun:
  "int (GPS_MAX_SVS E) < nSatsInView gsvData
   \<Longrightarrow> SetGpsGSV_Data E gsvData nmea_data s = Inl OutOfBounds"
  by (simp add: SetGpsGSV_Data_def copy_svs_overrun)

text \<open>What \<^verbatim>\<open>ProcessRxCommand\<close> and the framing of a buffer leave alone.\<close>

lemma ProcessRxCommand_untouched:
  "ProcessRxCommand E c d k s = Inr r \<Longrightarrow> fst r = ERROR_OK \<and> untouched s (snd r)"
  by (auto simp: ProcessRxCommand_def enqueue_def untouched_def Let_def split: option.splits)

lemma ProcessRxCommand_no_fault:
  "mParserThreadPoolObj s \<noteq> None \<Longrightarrow> \<exists>r. ProcessRxCommand E c d k s = Inr r"
  by (auto simp: ProcessRxCommand_def enqueue_def Let_def split: option.splits)

lemma rx_all_untouched: "rx_all E cmds s = Inr s' \<Longrightarrow> untouched s s'"
proof (induction cmds arbitrary: s)
  case Nil
  then show ?case by (simp add: untouched_refl)
next
  case (Cons c cmds)
  obtain pCmd pData checksum where c: "c = (pCmd, pData, checksum)"
    by (cases c) auto
  from Cons.prems c obtain r where r: "ProcessRxCommand E pCmd pData checksum s = Inr r"
    and rest: "rx_all E cmds (snd r) = Inr s'"
    by (auto split: sum.splits)
  from r have "untouched s (snd r)" by (simp add: ProcessRxCommand_untouched)
  moreover from rest have "untouched (snd r) s'" by (rule Cons.IH)
  ultimately show ?case by (rule untouched_trans)
qed

lemma rx_all_no_fault: "mParserThreadPoolObj s \<noteq> None \<Longrightarrow> \<exists>s'. rx_all E cmds s = Inr s'"
proof (induction cmds arbitrary: s)
  case Nil
  then show ?case by simp
next
  case (Cons c cmds)
  obtain pCmd pData checksum where c: "c = (pCmd, pData, checksum)"
    by (cases c) auto
  from Cons.prems obtain r where r: "ProcessRxCommand E pCmd pData checksum s = Inr r"
    using ProcessRxCommand_no_fault by blast
  from r have "untouched s (snd r)"
    by (simp add: ProcessRxCommand_untouched)
  then have "mParserThreadPoolObj (snd r) \<noteq> None"
    using Cons.prems by (simp add: untouched_pool)
  then obtain s' where "rx_all E cmds (snd r) = Inr s'"
    using Cons.IH by blast
  with r c show ?case by simp
qed

lemma ProcessNMEABuffer_ok:
  assumes "mParserThreadPoolObj s \<noteq> None"
  shows "\<exists>s'. ProcessNMEABuffer E buf s = Inr (fst (lib_ProcessNMEABuffer E (parser s) buf), s')
              \<and> untouched (s\<lparr>fed := fed s @ buf\<rparr>) s'"
proof -
  let ?r = "lib_ProcessNMEABuffer E (parser s) buf"
  let ?s1 = "s\<lparr>parser := snd (snd ?r), fed := fed s @ buf\<rparr>"
  from assms have "mParserThreadPoolObj ?s1 \<noteq> None" by simp
  then obtain s' where s': "rx_all E (fst (snd ?r)) ?s1 = Inr s'"
    using rx_all_no_fault by blast
  then have "untouched ?s1 s'" by (rule rx_all_untouched)
  then have "untouched (s\<lparr>fed := fed s @ buf\<rparr>) s'" by (simp add: untouched_def)
  with s' show ?thesis by (simp add: ProcessNMEABuffer_def Let_def)
qed

subsection \<open>The fix state at the start and at the end of a session\<close>

text \<open>
  Claim C3, as the code has it: \<^verbatim>\<open>init\<close>, which \<^verbatim>\<open>startParsing\<close> calls, sets altitude,
  speed, direction and horizontal accuracy to \<open>-1\<close> and leaves latitude and longitude
  as they were; \<^verbatim>\<open>deinit\<close>, which \<^verbatim>\<open>stopParsing\<close> calls, zeroes all six fields.
\<close>

theorem init_deinit_fields:
  "GpsData.altitude (mGpsData (init s)) = - 1
   \<and> GpsData.speed (mGpsData (init s)) = - 1
   \<and> direction (mGpsData (init s)) = - 1
   \<and> horizAccuracy (mGpsData (init s)) = - 1
   \<and> GpsData.latitude (mGpsData (init s)) = GpsData.latitude (mGpsData s)
   \<and> GpsData.longitude (mGpsData (init s)) = GpsData.longitude (mGpsData s)
   \<and> mGpsData (deinit E s) =
       \<lparr> GpsData.latitude = 0, GpsData.longitude = 0, GpsData.altitude = 0,
         GpsData.speed = 0, direction = 0, horizAccuracy = 0 \<rparr>
   \<and> mGpsData (snd (stopParsing E s)) = mGpsData (deinit E s)"
  by (simp add: init_def deinit_def zero_GpsData_def stopParsing_def Let_def)

text \<open>
  Claim C3 as stated fails for latitude and longitude: after the constructor they
  are 0, and \<^verbatim>\<open>init\<close> does not make them \<open>-1\<close>.
\<close>

theorem init_latitude_counterexample:
  "GpsData.latitude (mGpsData (init (ParserNmea_new ()))) \<noteq> - 1
   \<and> GpsData.longitude (mGpsData (init (ParserNmea_new ()))) \<noteq> - 1"
  by (simp add: init_def ParserNmea_new_def zero_GpsData_def)

subsection \<open>Applying RMC and GGA sentences\<close>

text \<open>
  Claim C5: applying a decoded RMC sentence with ground speed \<open>k\<close> knots emits a
  location event whose speed is \<open>k * 0.514\<close>, followed by the raw-sentence event when
  there is a raw text.
\<close>

theorem rmc_speed_conversion:
  "events (SetGpsRMC_Data E rmcData nmea_data s) =
     events s @
     parser_loc_cb
       \<lparr> GpsLocation.latitude = RMC_DATA_T.m_dLatitude rmcData,
         GpsLocation.longitude = RMC_DATA_T.m_dLongitude rmcData,
         GpsLocation.altitude = RMC_DATA_T.m_dAltitudeMSL rmcData,
         GpsLocation.speed = m_dSpeedKnots rmcData * 0.514,
         accuracy = horizAccuracy (mGpsData s),
         timestamp = clock E (ticks s) \<rparr>
     # (case nmea_data of
          None \<Rightarrow> []
        | Some txt \<Rightarrow> [parser_nmea_cb (clock E (Suc (ticks s))) txt (int (length txt))])"
  by (simp add: SetGpsRMC_Data_def sendLocationUpdates_def sendNmeaUpdates_def
      getCurrentTime_simps Let_def split: option.split)

text \<open>
  Claim C6, as the code has it: a GGA sentence and then an RMC sentence emit a location
  event (and a raw-sentence event) each. The second location event keeps the horizontal
  accuracy that the GGA sentence set, which RMC does not assign; its altitude is the
  \<^verbatim>\<open>m_dAltitudeMSL\<close> of the RMC record, which \<^verbatim>\<open>SetGpsRMC_Data\<close> always assigns.
\<close>

theorem gga_then_rmc_events:
  "events (SetGpsRMC_Data E rmcData (Some txt2) (SetGpsGGA_Data E ggaData (Some txt1) s)) =
     events s @
     [ parser_loc_cb
         \<lparr> GpsLocation.latitude = GGA_DATA_T.m_dLatitude ggaData,
           GpsLocation.longitude = GGA_DATA_T.m_dLongitude ggaData,
           GpsLocation.altitude = GGA_DATA_T.m_dAltitudeMSL ggaData,
           GpsLocation.speed = GpsData.speed (mGpsData s),
           accuracy = m_dHDOP ggaData,
           timestamp = clock E (ticks s) \<rparr>,
       parser_nmea_cb (clock E (ticks s + 1)) txt1 (int (length txt1)),
       parser_loc_cb
         \<lparr> GpsLocation.latitude = RMC_DATA_T.m_dLatitude rmcData,
           GpsLocation.longitude = RMC_DATA_T.m_dLongitude rmcData,
           GpsLocation.altitude = RMC_DATA_T.m_dAltitudeMSL rmcData,
           GpsLocation.speed = m_dSpeedKnots rmcData * 0.514,
           accuracy = m_dHDOP ggaData,
           timestamp = clock E (ticks s + 2) \<rparr>,
       parser_nmea_cb (clock E (ticks s + 3)) txt2 (int (length txt2)) ]"
  by (simp add: SetGpsRMC_Data_def SetGpsGGA_Data_def sendLocationUpdates_def sendNmeaUpdates_def
      getCurrentTime_simps Let_def numeral_3_eq_3)

text \<open>
  Claim C6 as stated fails: with a GGA altitude of 545.4 and an RMC record whose
  altitude is 0, the altitude of the second location event is not the GGA value.
\<close>

theorem gga_then_rmc_altitude_counterexample:
  "GpsLocation.altitude
     (locations (events
        (SetGpsRMC_Data sample_env (snd (GetGPRMC sample_env ())) (Some ''$GPRMC,*00'')
           (SetGpsGGA_Data sample_env (snd (GetGPGGA sample_env ())) (Some ''$GPGGA,*00'')
              (ParserNmea_new ())))) ! 1)
   \<noteq> GGA_DATA_T.m_dAltitudeMSL (snd (GetGPGGA sample_env ()))"
  by (simp add: SetGpsRMC_Data_def SetGpsGGA_Data_def sendLocationUpdates_def sendNmeaUpdates_def
      getCurrentTime_simps Let_def sample_env_def ParserNmea_new_def zero_GpsData_def)

subsection \<open>Satellites in view\<close>

text \<open>
  Claim C9 fails on the code: \<^verbatim>\<open>SetGpsGSV_Data\<close> copies \<^verbatim>\<open>nSatsInView\<close> entries without
  a cap. With an array of 32 entries and 33 satellites in view the loop writes
  \<^verbatim>\<open>sv_list[32]\<close>, outside the array.
\<close>

theorem gsv_overrun_example:
  "SetGpsGSV_Data sample_env
     \<lparr> nSatsInView = 33,
       SatInfo = replicate 36 \<lparr> nPRN = 1, nSNR = 40, dElevation = 45, dAzimuth = 90 \<rparr> \<rparr>
     (Some ''$GPGSV,9,1,33*00'') (ParserNmea_new ())
   = Inl OutOfBounds"
  by (rule SetGpsGSV_Data_overrun) (simp add: sample_env_def)

subsection \<open>Starting and stopping\<close>

text \<open>
  Claim C8: when the tracked file cannot be opened, \<^verbatim>\<open>startParsing\<close> called on a
  parser with no open file returns \<open>False\<close> and leaves the parser as it was: no file
  handle, the fix state not reset, no event emitted.
\<close>

theorem startParsing_file_missing:
  assumes "nmea_file E = None" and "mNmeaFp s = None"
  shows "startParsing E s = Inr (False, s)"
  using assms by (simp add: startParsing_def fopen_def)

theorem startParsing_file_missing_witness:
  "nmea_file (sample_env\<lparr>nmea_file := None\<rparr>) = None
   \<and> mNmeaFp (ParserNmea_new ()) = None
   \<and> startParsing (sample_env\<lparr>nmea_file := None\<rparr>) (ParserNmea_new ()) = Inr (False, ParserNmea_new ())"
  using startParsing_file_missing [of "sample_env\<lparr>nmea_file := None\<rparr>" "ParserNmea_new ()"]
  by (simp add: sample_env_def ParserNmea_new_def)

text \<open>
  Claim C10: \<^verbatim>\<open>stopParsing\<close> returns \<open>True\<close>, emits one session-end status event and
  nothing else, zeroes the fix state and sets the read offset to 0, in every state of
  the parser, also one in which no session is running.
\<close>

theorem stopParsing_always:
  "fst (stopParsing E s) = True
   \<and> events (snd (stopParsing E s)) = events s @ [parser_status_cb NYX_GPS_STATUS_SESSION_END]
   \<and> mGpsData (snd (stopParsing E s)) =
       \<lparr> GpsData.latitude = 0, GpsData.longitude = 0, GpsData.altitude = 0,
         GpsData.speed = 0, direction = 0, horizAccuracy = 0 \<rparr>
   \<and> mSeekOffset (snd (stopParsing E s)) = 0"
  by (simp add: stopParsing_def deinit_def SetGpsStatus_def zero_GpsData_def Let_def
      split: option.split)

subsection \<open>Sentences of no recognized kind\<close>

text \<open>
  Claim C7, as the code has it: for a sentence whose command contains none of
  \<^verbatim>\<open>GPGGA\<close>, \<^verbatim>\<open>GPGSV\<close>, \<^verbatim>\<open>GPGSA\<close> and \<^verbatim>\<open>GPRMC\<close>, \<^verbatim>\<open>ProcessRxCommand\<close> hands the
  sentence to the base class, frees the raw text and returns \<^verbatim>\<open>ERROR_OK\<close>: no event
  is emitted and no task is queued.
\<close>

theorem unrecognized_sentence_dropped:
  assumes "\<not> strstr pCmd ''GPGGA''" and "\<not> strstr pCmd ''GPGSV''"
    and "\<not> strstr pCmd ''GPGSA''" and "\<not> strstr pCmd ''GPRMC''"
  shows "ProcessRxCommand E pCmd pData checksum s =
           Inr (ERROR_OK, s\<lparr>parser := lib_ProcessRxCommand E pCmd pData (parser s)\<rparr>)"
  using assms by (simp add: ProcessRxCommand_def rx_task_def Let_def)

theorem unrecognized_sentence_dropped_witness:
  "\<not> strstr ''GPGLL'' ''GPGGA'' \<and> \<not> strstr ''GPGLL'' ''GPGSV''
   \<and> \<not> strstr ''GPGLL'' ''GPGSA'' \<and> \<not> strstr ''GPGLL'' ''GPRMC''
   \<and> ProcessRxCommand sample_env ''GPGLL'' ''4916.45,N,12311.12,W,225444,A,'' ''1D'' sample_parser =
       Inr (ERROR_OK, sample_parser)"
  using unrecognized_sentence_dropped [of "''GPGLL''" sample_env "''4916.45,N,12311.12,W,225444,A,''" "''1D''" sample_parser]
  by (simp add: sample_env_def sample_parser_def ParserNmea_new_def)

text \<open>
  Claim C7 as stated fails: for the sentence
  \<^verbatim>\<open>$GPGLL,4916.45,N,12311.12,W,225444,A,*1D\<close> the parser is returned as it was, with
  an empty event log and an empty task queue, so no raw-sentence event reaches the
  consumer.
\<close>

theorem unrecognized_sentence_counterexample:
  "ProcessRxCommand sample_env ''GPGLL'' ''4916.45,N,12311.12,W,225444,A,'' ''1D'' sample_parser =
     Inr (ERROR_OK, sample_parser)
   \<and> events sample_parser = []
   \<and> map_option tasks (mParserThreadPoolObj sample_parser) = Some []"
  by (simp add: ProcessRxCommand_def rx_task_def Let_def sample_env_def sample_parser_def
      ParserNmea_new_def)

subsection \<open>The read loop\<close>

text \<open>The loop, for any library.\<close>

lemma read_loop_frame:
  "mParserThreadPoolObj s \<noteq> None \<Longrightarrow>
   \<exists>b s'. read_loop E s = Inr (b, s')
     \<and> events s' = events s \<and> mGpsData s' = mGpsData s \<and> ticks s' = ticks s
     \<and> watch s' = watch s \<and> mSeekOffset s \<le> mSeekOffset s'
     \<and> map_option interval (mParserThreadPoolObj s') = map_option interval (mParserThreadPoolObj s)"
proof (induction E s rule: read_loop.induct)
  case (1 E s)
  show ?case
  proof (cases "mNmeaFp s")
    case None
    then show ?thesis by (subst read_loop.simps) simp
  next
    case (Some fp)
    show ?thesis
    proof (cases "eof fp \<or> mStopParser s")
      case True
      with Some show ?thesis by (subst read_loop.simps) auto
    next
      case False
      let ?buf = "fst (fread 512 fp)"
      let ?s1 = "s\<lparr>mNmeaFp := Some (snd (fread 512 fp))\<rparr>"
      from "1.prems" have "mParserThreadPoolObj ?s1 \<noteq> None" by simp
      then obtain s2 where s2: "ProcessNMEABuffer E ?buf ?s1 =
            Inr (fst (lib_ProcessNMEABuffer E (parser ?s1) ?buf), s2)"
        and u: "untouched (?s1\<lparr>fed := fed ?s1 @ ?buf\<rparr>) s2"
        using ProcessNMEABuffer_ok by blast
      let ?err = "fst (lib_ProcessNMEABuffer E (parser ?s1) ?buf)"
      show ?thesis
      proof (cases "?err = ERROR_OK")
        case True
        let ?s3 = "s2\<lparr>mSeekOffset := mSeekOffset s2 + length ?buf\<rparr>"
        have "mParserThreadPoolObj ?s3 \<noteq> None"
          using u "1.prems" untouched_pool [OF u] by simp
        with "1.IH" [OF Some _ _ s2] False True
        obtain b s' where r: "read_loop E ?s3 = Inr (b, s')"
          and f: "events s' = events ?s3" "mGpsData s' = mGpsData ?s3" "ticks s' = ticks ?s3"
            "watch s' = watch ?s3" "mSeekOffset ?s3 \<le> mSeekOffset s'"
            "map_option interval (mParserThreadPoolObj s') = map_option interval (mParserThreadPoolObj ?s3)"
          by auto
        have "read_loop E s = read_loop E ?s3"
          using Some False True s2 by (subst read_loop.simps) simp
        with r f u show ?thesis by (simp add: untouched_def)
      next
        case err: False
        have "read_loop E s = Inr (Some False, s2)"
          using Some False err s2 by (subst read_loop.simps) simp
        with u show ?thesis by (simp add: untouched_def)
      qed
    qed
  qed
qed




text \<open>\<^verbatim>\<open>startParsing\<close> from the latency on, for any library.\<close>

lemma read_pass_frame:
  "\<exists>b s'. read_pass E keyfile s = Inr (b, s')
     \<and> events s' = events s \<and> mGpsData s' = mGpsData s \<and> mSeekOffset s \<le> mSeekOffset s'
     \<and> map_option interval (mParserThreadPoolObj s') =
         (case mParserThreadPoolObj s of
            None \<Rightarrow> Some (c_div (if g_key_file_get_integer keyfile ''LATENCY'' = 0
                                  then DEFAULT_LATENCY E
                                  else g_key_file_get_integer keyfile ''LATENCY'') 2)
          | Some pool \<Rightarrow> Some (interval pool))"
proof -
  let ?latency0 = "g_key_file_get_integer keyfile ''LATENCY''"
  let ?interval = "c_div (if ?latency0 = 0 then DEFAULT_LATENCY E else ?latency0) 2"
  let ?s1 = "case mParserThreadPoolObj s of
               None \<Rightarrow> s\<lparr>mParserThreadPoolObj := Some \<lparr> threads = 1, interval = ?interval, tasks = [] \<rparr>\<rparr>
             | Some pool \<Rightarrow> s"
  let ?s2 = "if mSeekOffset ?s1 \<noteq> 0
             then ?s1\<lparr>mNmeaFp := map_option (\<lambda>fp. fseek fp (mSeekOffset ?s1)) (mNmeaFp ?s1)\<rparr>
             else ?s1"
  have pool: "mParserThreadPoolObj ?s2 \<noteq> None"
    by (simp split: option.split)
  from read_loop_frame [OF pool, of E]
  obtain b s3 where r: "read_loop E ?s2 = Inr (b, s3)"
    and f: "events s3 = events ?s2" "mGpsData s3 = mGpsData ?s2" "mSeekOffset ?s2 \<le> mSeekOffset s3"
      "map_option interval (mParserThreadPoolObj s3) = map_option interval (mParserThreadPoolObj ?s2)"
    by blast
  have "read_pass E keyfile s =
          (case b of Some b' \<Rightarrow> Inr (b', s3) | None \<Rightarrow> Inr (False, s3\<lparr>mNmeaFp := None, watch := True\<rparr>))"
    using r by (cases "mNmeaFp s3") (simp_all add: read_pass_def Let_def split: option.split)
  with f show ?thesis
    by (cases b) (auto split: option.splits)
qed



subsection \<open>A missing configuration\<close>

text \<open>
  Claim C1, as the code has it: when the file opens and there is no key file,
  \<^verbatim>\<open>startParsing\<close> returns \<open>False\<close> right after \<^verbatim>\<open>init\<close> and the session-begin event,
  with the file left open, no pool built and nothing read. The default latency is used
  when the key file is there and its \<^verbatim>\<open>LATENCY\<close> is absent or 0: a pool built then has
  the interval \<^verbatim>\<open>DEFAULT_LATENCY / 2\<close>. With any other \<^verbatim>\<open>LATENCY\<close> the pool built has
  the interval \<^verbatim>\<open>LATENCY / 2\<close>.
\<close>

theorem startParsing_config_missing:
  "(nmea_file E = Some f \<and> config E = None \<longrightarrow>
      startParsing E s =
        Inr (False, SetGpsStatus NYX_GPS_STATUS_SESSION_BEGIN
                      (init (s\<lparr>mNmeaFp := Some \<lparr> content = f, pos = 0, eof = False \<rparr>\<rparr>))))
   \<and> (nmea_file E = Some f \<and> config E = Some keyfile
        \<and> g_key_file_get_integer keyfile ''LATENCY'' = 0 \<and> mParserThreadPoolObj s = None \<longrightarrow>
      (\<exists>b s'. startParsing E s = Inr (b, s')
         \<and> map_option interval (mParserThreadPoolObj s') = Some (c_div (DEFAULT_LATENCY E) 2)))
   \<and> (nmea_file E = Some f \<and> config E = Some keyfile
        \<and> g_key_file_get_integer keyfile ''LATENCY'' \<noteq> 0 \<and> mParserThreadPoolObj s = None \<longrightarrow>
      (\<exists>b s'. startParsing E s = Inr (b, s')
         \<and> map_option interval (mParserThreadPoolObj s') =
             Some (c_div (g_key_file_get_integer keyfile ''LATENCY'') 2)))"
proof (intro conjI impI)
  assume "nmea_file E = Some f \<and> config E = None"
  then show "startParsing E s =
        Inr (False, SetGpsStatus NYX_GPS_STATUS_SESSION_BEGIN
                      (init (s\<lparr>mNmeaFp := Some \<lparr> content = f, pos = 0, eof = False \<rparr>\<rparr>)))"
    by (simp add: startParsing_def fopen_def)
next
  assume a: "nmea_file E = Some f \<and> config E = Some keyfile
        \<and> g_key_file_get_integer keyfile ''LATENCY'' = 0 \<and> mParserThreadPoolObj s = None"
  let ?s1 = "SetGpsStatus NYX_GPS_STATUS_SESSION_BEGIN
               (init (s\<lparr>mNmeaFp := Some \<lparr> content = f, pos = 0, eof = False \<rparr>\<rparr>))"
  from a have pool: "mParserThreadPoolObj ?s1 = None"
    by (simp add: SetGpsStatus_def init_def)
  from a have "startParsing E s = read_pass E keyfile ?s1"
    by (simp add: startParsing_def fopen_def)
  with read_pass_frame [of E keyfile ?s1] pool a
  show "\<exists>b s'. startParsing E s = Inr (b, s')
         \<and> map_option interval (mParserThreadPoolObj s') = Some (c_div (DEFAULT_LATENCY E) 2)"
    by auto
next
  assume a: "nmea_file E = Some f \<and> config E = Some keyfile
        \<and> g_key_file_get_integer keyfile ''LATENCY'' \<noteq> 0 \<and> mParserThreadPoolObj s = None"
  let ?s1 = "SetGpsStatus NYX_GPS_STATUS_SESSION_BEGIN
               (init (s\<lparr>mNmeaFp := Some \<lparr> content = f, pos = 0, eof = False \<rparr>\<rparr>))"
  from a have pool: "mParserThreadPoolObj ?s1 = None"
    by (simp add: SetGpsStatus_def init_def)
  from a have "startParsing E s = read_pass E keyfile ?s1"
    by (simp add: startParsing_def fopen_def)
  with read_pass_frame [of E keyfile ?s1] pool a
  show "\<exists>b s'. startParsing E s = Inr (b, s')
         \<and> map_option interval (mParserThreadPoolObj s') =
             Some (c_div (g_key_file_get_integer keyfile ''LATENCY'') 2)"
    by auto
qed

theorem startParsing_config_missing_witness:
  "nmea_file (sample_env\<lparr>config := None\<rparr>) = Some ''$GP''
   \<and> config (sample_env\<lparr>config := None\<rparr>) = None
   \<and> startParsing (sample_env\<lparr>config := None\<rparr>) (ParserNmea_new ()) =
       Inr (False, SetGpsStatus NYX_GPS_STATUS_SESSION_BEGIN
                     (init ((ParserNmea_new ())\<lparr>mNmeaFp := Some \<lparr> content = ''$GP'', pos = 0, eof = False \<rparr>\<rparr>)))
   \<and> nmea_file sample_env = Some ''$GP''
   \<and> config sample_env = Some (Map.empty(''LATENCY'' \<mapsto> 0))
   \<and> g_key_file_get_integer (Map.empty(''LATENCY'' \<mapsto> 0)) ''LATENCY'' = 0
   \<and> mParserThreadPoolObj (ParserNmea_new ()) = None
   \<and> (\<exists>b s'. startParsing sample_env (ParserNmea_new ()) = Inr (b, s')
         \<and> map_option interval (mParserThreadPoolObj s') = Some (c_div (DEFAULT_LATENCY sample_env) 2))
   \<and> nmea_file (sample_env\<lparr>config := Some (Map.empty(''LATENCY'' \<mapsto> 250))\<rparr>) = Some ''$GP''
   \<and> config (sample_env\<lparr>config := Some (Map.empty(''LATENCY'' \<mapsto> 250))\<rparr>)
       = Some (Map.empty(''LATENCY'' \<mapsto> 250))
   \<and> g_key_file_get_integer (Map.empty(''LATENCY'' \<mapsto> 250)) ''LATENCY'' \<noteq> 0
   \<and> (\<exists>b s'. startParsing (sample_env\<lparr>config := Some (Map.empty(''LATENCY'' \<mapsto> 250))\<rparr>)
                 (ParserNmea_new ()) = Inr (b, s')
         \<and> map_option interval (mParserThreadPoolObj s') =
             Some (c_div (g_key_file_get_integer (Map.empty(''LATENCY'' \<mapsto> 250)) ''LATENCY'') 2))"
  using startParsing_config_missing [where E = "sample_env\<lparr>config := None\<rparr>" and f = "''$GP''"
      and s = "ParserNmea_new ()" and keyfile = "Map.empty(''LATENCY'' \<mapsto> 0)"]
    startParsing_config_missing [where E = sample_env and f = "''$GP''"
      and s = "ParserNmea_new ()" and keyfile = "Map.empty(''LATENCY'' \<mapsto> 0)"]
    startParsing_config_missing [where E = "sample_env\<lparr>config := Some (Map.empty(''LATENCY'' \<mapsto> 250))\<rparr>"
      and f = "''$GP''" and s = "ParserNmea_new ()" and keyfile = "Map.empty(''LATENCY'' \<mapsto> 250)"]
  by (simp add: sample_env_def ParserNmea_new_def g_key_file_get_integer_def)

text \<open>
  Claim C1 as stated fails: in the sample environment without a key file,
  \<^verbatim>\<open>startParsing\<close> returns \<open>False\<close>; none of the three bytes of the file has been fed
  to the decoder and no pool exists.
\<close>

theorem config_missing_counterexample:
  "startParsing (sample_env\<lparr>config := None\<rparr>) (ParserNmea_new ()) =
     Inr (False,
       \<lparr> mNmeaFp = Some \<lparr> content = ''$GP'', pos = 0, eof = False \<rparr>,
         mSeekOffset = 0, mStopParser = False,
         mGpsData = \<lparr> GpsData.latitude = 0, GpsData.longitude = 0, GpsData.altitude = - 1,
                      GpsData.speed = - 1, direction = - 1, horizAccuracy = - 1 \<rparr>,
         mParserThreadPoolObj = None, parser = (),
         events = [parser_status_cb NYX_GPS_STATUS_SESSION_BEGIN], fed = [],
         ticks = 0, watch = False \<rparr>)"
  by (simp add: startParsing_def fopen_def sample_env_def ParserNmea_new_def
      SetGpsStatus_def init_def zero_GpsData_def)

subsection \<open>Starting while a session is running\<close>

text \<open>
  Claim C2, as the code has it: \<^verbatim>\<open>startParsing\<close> does not look at whether a session
  is running. Whenever the file opens, in any state of the parser, it runs \<^verbatim>\<open>init\<close>
  again (altitude, speed, direction and horizontal accuracy become \<open>-1\<close>), emits one
  more session-begin event and returns what the new pass returns; the read offset is
  kept, it is never lowered.
\<close>

theorem startParsing_reinitialises:
  assumes "nmea_file E = Some f"
  shows "\<exists>b s'. startParsing E s = Inr (b, s')
           \<and> events s' = events s @ [parser_status_cb NYX_GPS_STATUS_SESSION_BEGIN]
           \<and> mGpsData s' = (mGpsData s)\<lparr> GpsData.altitude := - 1, GpsData.speed := - 1,
                                         direction := - 1, horizAccuracy := - 1 \<rparr>
           \<and> mSeekOffset s \<le> mSeekOffset s'"
proof (cases "config E")
  case None
  with assms show ?thesis
    by (auto simp: startParsing_def fopen_def SetGpsStatus_def init_def)
next
  case (Some keyfile)
  let ?s1 = "SetGpsStatus NYX_GPS_STATUS_SESSION_BEGIN
               (init (s\<lparr>mNmeaFp := Some \<lparr> content = f, pos = 0, eof = False \<rparr>\<rparr>))"
  from assms Some have "startParsing E s = read_pass E keyfile ?s1"
    by (simp add: startParsing_def fopen_def)
  with read_pass_frame [of E keyfile ?s1] show ?thesis
    by (auto simp: SetGpsStatus_def init_def)
qed

theorem startParsing_reinitialises_witness:
  "nmea_file sample_env = Some ''$GP''
   \<and> (\<exists>b s'. startParsing sample_env sample_waiting = Inr (b, s')
           \<and> events s' = events sample_waiting @ [parser_status_cb NYX_GPS_STATUS_SESSION_BEGIN]
           \<and> mGpsData s' = (mGpsData sample_waiting)\<lparr> GpsData.altitude := - 1, GpsData.speed := - 1,
                                         direction := - 1, horizAccuracy := - 1 \<rparr>
           \<and> mSeekOffset sample_waiting \<le> mSeekOffset s')"
  using startParsing_reinitialises [of sample_env "''$GP''" sample_waiting]
  by (simp add: sample_env_def)

text \<open>
  Claim C2 as stated fails: after a first \<^verbatim>\<open>startParsing\<close> the sample parser waits
  for a notification; a second \<^verbatim>\<open>startParsing\<close> returns \<open>False\<close> and has emitted a
  second session-begin event.
\<close>

theorem restart_counterexample:
  "startParsing sample_env (ParserNmea_new ()) = Inr (False, sample_waiting)
   \<and> startParsing sample_env sample_waiting =
       Inr (False, sample_waiting\<lparr>events := [parser_status_cb NYX_GPS_STATUS_SESSION_BEGIN,
                                              parser_status_cb NYX_GPS_STATUS_SESSION_BEGIN]\<rparr>)"
  by (simp add: startParsing_def read_pass_def fopen_def sample_env_def ParserNmea_new_def
      SetGpsStatus_def init_def zero_GpsData_def g_key_file_get_integer_def c_div_def Let_def
      read_loop.simps fread_def fseek_def ProcessNMEABuffer_def sample_waiting_def)

subsection \<open>The read offset\<close>




text \<open>
  The same in general: \<^verbatim>\<open>stopParsing\<close> sets the stop flag when it finds the file open
  (after a start that returned at the missing key file or at a decoder error); the next
  \<^verbatim>\<open>startParsing\<close> then returns \<open>True\<close> at the first test of the flag and reads nothing,
  with the read offset still 0.
\<close>

lemma start_after_stop_with_open_file:
  assumes "mNmeaFp s = Some fp" and "nmea_file E = Some g" and "config E = Some keyfile"
  shows "\<exists>s'. startParsing E (snd (stopParsing E s)) = Inr (True, s')
           \<and> fed s' = fed s \<and> mSeekOffset s' = 0 \<and> \<not> mStopParser s'"
proof -
  let ?t = "snd (stopParsing E s)"
  have t: "mStopParser ?t" "mSeekOffset ?t = 0" "fed ?t = fed s" "mParserThreadPoolObj ?t = None"
    using assms(1) by (simp_all add: stopParsing_def deinit_def SetGpsStatus_def Let_def)
  let ?u = "SetGpsStatus NYX_GPS_STATUS_SESSION_BEGIN
              (init (?t\<lparr>mNmeaFp := Some \<lparr> content = g, pos = 0, eof = False \<rparr>\<rparr>))"
  let ?v = "?u\<lparr>mParserThreadPoolObj :=
               Some \<lparr> threads = 1,
                      interval = c_div (if g_key_file_get_integer keyfile ''LATENCY'' = 0
                                        then DEFAULT_LATENCY E
                                        else g_key_file_get_integer keyfile ''LATENCY'') 2,
                      tasks = [] \<rparr>\<rparr>"
  have loop: "read_loop E ?v = Inr (Some True, ?v\<lparr>mStopParser := False, mNmeaFp := None\<rparr>)"
    using t(1) by (subst read_loop.simps) (simp add: SetGpsStatus_def init_def)
  have "startParsing E ?t = read_pass E keyfile ?u"
    using assms(2,3) by (simp add: startParsing_def fopen_def)
  also have "\<dots> = Inr (True, ?v\<lparr>mStopParser := False, mNmeaFp := None\<rparr>)"
    using t(2,4) loop by (simp add: read_pass_def Let_def SetGpsStatus_def init_def)
  finally show ?thesis
    using t(2,3) by (simp add: SetGpsStatus_def init_def)
qed

end
